theory Spec2Isabelle
  imports Main
begin

section \<open>JavaScript values read by the resolver\<close>

text \<open>
  A string-valued setting of the environment is a JavaScript string or \<open>undefined\<close>
  (a setting that is missing): \<open>Some s\<close> is the string \<open>s\<close>, \<open>None\<close> is \<open>undefined\<close>.
  The three operations the source applies to such a value are its truthiness
  (\<open>v ? a : b\<close>), the operator \<open>v || d\<close> with a string \<open>d\<close> on the right, and the
  interpolation \<open>${v}\<close> of a template literal.
\<close>

definition truthy :: "string option \<Rightarrow> bool" where
  "truthy v = (case v of None \<Rightarrow> False | Some s \<Rightarrow> s \<noteq> [])"

definition or_else :: "string option \<Rightarrow> string \<Rightarrow> string" where
  "or_else v d = (case v of None \<Rightarrow> d | Some s \<Rightarrow> if s = [] then d else s)"

definition interpolate :: "string option \<Rightarrow> string" where
  "interpolate v = (case v of None \<Rightarrow> ''undefined'' | Some s \<Rightarrow> s)"

section \<open>Data model\<close>

text \<open>
  The object \<open>environment\<close> is imported by the resolver and read only. It is a
  parameter of every function here. The resolver reads \<open>production\<close>, \<open>OIDC\<close> and
  \<open>oauth\<close>; the object has further settings (the login component reads some of them),
  which are the extension part of the record. The flags \<open>oidcServerEnabled\<close>,
  \<open>oauth.enabled\<close> and \<open>production\<close> are booleans; the other settings read are
  strings that may be missing.
\<close>

record OIDC_settings =
  oidcServerEnabled :: bool
  oidcBaseUrl :: "string option"
  oidcClientId :: "string option"
  oidcFrontUrl :: "string option"

record oauth_settings =
  enabled :: bool
  serverUrl :: "string option"
  realm :: "string option"
  authorizeUrl :: "string option"
  tokenUrl :: "string option"
  logoutUrl :: "string option"
  redirectUri :: "string option"
  scope :: "string option"
  appId :: "string option"

record environment =
  production :: bool
  OIDC :: OIDC_settings
  oauth :: oauth_settings

text \<open>\<open>window.location.origin\<close>, the other value the resolver reads.\<close>

record location =
  origin :: string

record window =
  location :: location

datatype AuthMode = AuthMode_OAuth2 | AuthMode_OIDC | AuthMode_Basic

text \<open>
  The configuration object handed to the OAuth/OIDC client library. Every property is
  optional; \<open>None\<close> is a property that is not set (or set to \<open>undefined\<close>). The
  record has the properties that the resolver writes.
\<close>

record AuthConfig =
  issuer :: "string option"
  loginUrl :: "string option"
  tokenEndpoint :: "string option"
  redirectUri :: "string option"
  postLogoutRedirectUri :: "string option"
  clientId :: "string option"
  responseType :: "string option"
  scope :: "string option"
  useSilentRefresh :: "bool option"
  oidc :: "bool option"
  skipIssuerCheck :: "bool option"
  strictDiscoveryDocumentValidation :: "bool option"
  requireHttps :: "bool option"
  showDebugInformation :: "bool option"
  sessionChecksEnabled :: "bool option"
  clearHashAfterLogin :: "bool option"

text \<open>The object literal \<open>{}\<close>; an object literal with properties updates it.\<close>

definition AuthConfig_empty :: AuthConfig where
  "AuthConfig_empty =
    \<lparr>issuer = None, loginUrl = None, tokenEndpoint = None, redirectUri = None,
     postLogoutRedirectUri = None, clientId = None, responseType = None, scope = None,
     useSilentRefresh = None, oidc = None, skipIssuerCheck = None,
     strictDiscoveryDocumentValidation = None, requireHttps = None,
     showDebugInformation = None, sessionChecksEnabled = None,
     clearHashAfterLogin = None\<rparr>"

section \<open>The resolver\<close>

definition getActiveAuthMode :: "'e environment_scheme \<Rightarrow> AuthMode" where
  "getActiveAuthMode environment =
    (if oidcServerEnabled (OIDC environment) then AuthMode_OIDC
     else if enabled (oauth environment) then AuthMode_OAuth2
     else AuthMode_Basic)"

definition getOIDCConfig :: "'e environment_scheme \<Rightarrow> 'w window_scheme \<Rightarrow> AuthConfig" where
  "getOIDCConfig environment window =
    (let frontUrl = or_else (oidcFrontUrl (OIDC environment)) (origin (location window))
     in AuthConfig_empty
          \<lparr>issuer := oidcBaseUrl (OIDC environment),
           clientId := oidcClientId (OIDC environment),
           redirectUri := Some (frontUrl @ ''/callback''),
           postLogoutRedirectUri := Some (frontUrl @ ''/#/login''),
           responseType := Some ''code'',
           scope := Some ''openid profile email offline_access'',
           oidc := Some True,
           useSilentRefresh := Some False,
           requireHttps := Some (production environment),
           showDebugInformation := Some (\<not> production environment),
           sessionChecksEnabled := Some False,
           clearHashAfterLogin := Some False\<rparr>)"

text \<open>
  The local constants \<open>realm\<close>, \<open>authorizeUrl\<close>, \<open>tokenUrl\<close> and \<open>logoutUrl\<close> of
  \<open>getOAuth2Config\<close>. The source computes \<open>logoutUrl\<close> and does not use it in the
  object it returns.
\<close>

definition getOAuth2Config_realm :: "'e environment_scheme \<Rightarrow> string" where
  "getOAuth2Config_realm environment = or_else (realm (oauth environment)) ''fineract''"

definition getOAuth2Config_authorizeUrl :: "'e environment_scheme \<Rightarrow> string" where
  "getOAuth2Config_authorizeUrl environment =
    (let serverUrl = serverUrl (oauth environment);
         realm = getOAuth2Config_realm environment
     in or_else (authorizeUrl (oauth environment))
          (if truthy serverUrl
           then interpolate serverUrl @ ''/realms/'' @ realm @ ''/protocol/openid-connect/auth''
           else ''''))"

definition getOAuth2Config_tokenUrl :: "'e environment_scheme \<Rightarrow> string" where
  "getOAuth2Config_tokenUrl environment =
    (let serverUrl = serverUrl (oauth environment);
         realm = getOAuth2Config_realm environment
     in or_else (tokenUrl (oauth environment))
          (if truthy serverUrl
           then interpolate serverUrl @ ''/realms/'' @ realm @ ''/protocol/openid-connect/token''
           else ''''))"

definition getOAuth2Config_logoutUrl :: "'e environment_scheme \<Rightarrow> string" where
  "getOAuth2Config_logoutUrl environment =
    (let serverUrl = serverUrl (oauth environment);
         realm = getOAuth2Config_realm environment
     in or_else (logoutUrl (oauth environment))
          (if truthy serverUrl
           then interpolate serverUrl @ ''/realms/'' @ realm @ ''/protocol/openid-connect/logout''
           else ''''))"

definition getOAuth2Config :: "'e environment_scheme \<Rightarrow> 'w window_scheme \<Rightarrow> AuthConfig" where
  "getOAuth2Config environment window =
    (let frontendUrl = origin (location window);
         serverUrl = serverUrl (oauth environment);
         realm = getOAuth2Config_realm environment;
         authorizeUrl = getOAuth2Config_authorizeUrl environment;
         tokenUrl = getOAuth2Config_tokenUrl environment;
         logoutUrl = getOAuth2Config_logoutUrl environment;
         redirectUri =
           or_else (oauth_settings.redirectUri (oauth environment)) (frontendUrl @ ''/#/callback'');
         scope = or_else (oauth_settings.scope (oauth environment)) ''openid profile email''
     in AuthConfig_empty
          \<lparr>issuer := Some (interpolate serverUrl @ ''/realms/'' @ realm),
           loginUrl := Some authorizeUrl,
           tokenEndpoint := Some tokenUrl,
           redirectUri := Some redirectUri,
           postLogoutRedirectUri := Some (frontendUrl @ ''/#/login''),
           clientId := appId (oauth environment),
           responseType := Some ''code'',
           scope := Some scope,
           useSilentRefresh := Some False,
           oidc := Some False,
           skipIssuerCheck := Some True,
           strictDiscoveryDocumentValidation := Some False,
           requireHttps := Some (production environment),
           showDebugInformation := Some (\<not> production environment),
           sessionChecksEnabled := Some False,
           clearHashAfterLogin := Some False\<rparr>)"

definition getOAuthConfig :: "'e environment_scheme \<Rightarrow> 'w window_scheme \<Rightarrow> AuthConfig" where
  "getOAuthConfig environment window =
    (let authMode = getActiveAuthMode environment
     in case authMode of
          AuthMode_OIDC \<Rightarrow> getOIDCConfig environment window
        | AuthMode_OAuth2 \<Rightarrow> getOAuth2Config environment window
        | _ \<Rightarrow> AuthConfig_empty\<lparr>clientId := Some ''''\<rparr>)"

section \<open>The resolver with failing property reads\<close>

text \<open>
  Reading a property of \<open>undefined\<close> raises a \<open>TypeError\<close>. The resolver reads the
  settings through \<open>environment.OIDC\<close> and \<open>environment.oauth\<close>, so it raises when it
  reads through one of these objects and the object is missing. Here the imported
  object has the two objects as properties that may be missing (\<open>None\<close>), and the
  functions return the error or the value. Reads happen in the order of the source:
  \<open>getActiveAuthMode\<close> reads \<open>environment.OIDC\<close> first and \<open>environment.oauth\<close>
  only when \<open>oidcServerEnabled\<close> is false.
\<close>

datatype error = TypeError

record environment_object =
  production_property :: bool
  OIDC_property :: "OIDC_settings option"
  oauth_property :: "oauth_settings option"

definition getActiveAuthMode_js :: "environment_object \<Rightarrow> error + AuthMode" where
  "getActiveAuthMode_js environment =
    (case OIDC_property environment of
       None \<Rightarrow> Inl TypeError
     | Some OIDC_object \<Rightarrow>
         if oidcServerEnabled OIDC_object then Inr AuthMode_OIDC
         else (case oauth_property environment of
                 None \<Rightarrow> Inl TypeError
               | Some oauth_object \<Rightarrow>
                   if enabled oauth_object then Inr AuthMode_OAuth2
                   else Inr AuthMode_Basic))"

definition getOIDCConfig_js :: "environment_object \<Rightarrow> 'w window_scheme \<Rightarrow> error + AuthConfig" where
  "getOIDCConfig_js environment window =
    (case OIDC_property environment of
       None \<Rightarrow> Inl TypeError
     | Some OIDC_object \<Rightarrow>
         (let frontUrl = or_else (oidcFrontUrl OIDC_object) (origin (location window))
          in Inr (AuthConfig_empty
               \<lparr>issuer := oidcBaseUrl OIDC_object,
                clientId := oidcClientId OIDC_object,
                redirectUri := Some (frontUrl @ ''/callback''),
                postLogoutRedirectUri := Some (frontUrl @ ''/#/login''),
                responseType := Some ''code'',
                scope := Some ''openid profile email offline_access'',
                oidc := Some True,
                useSilentRefresh := Some False,
                requireHttps := Some (production_property environment),
                showDebugInformation := Some (\<not> production_property environment),
                sessionChecksEnabled := Some False,
                clearHashAfterLogin := Some False\<rparr>)))"

definition getOAuth2Config_js :: "environment_object \<Rightarrow> 'w window_scheme \<Rightarrow> error + AuthConfig" where
  "getOAuth2Config_js environment window =
    (case oauth_property environment of
       None \<Rightarrow> Inl TypeError
     | Some oauth_object \<Rightarrow>
         (let frontendUrl = origin (location window);
              serverUrl = serverUrl oauth_object;
              realm = or_else (realm oauth_object) ''fineract'';
              authorizeUrl =
                or_else (authorizeUrl oauth_object)
                  (if truthy serverUrl
                   then interpolate serverUrl @ ''/realms/'' @ realm @
                        ''/protocol/openid-connect/auth''
                   else '''');
              tokenUrl =
                or_else (tokenUrl oauth_object)
                  (if truthy serverUrl
                   then interpolate serverUrl @ ''/realms/'' @ realm @
                        ''/protocol/openid-connect/token''
                   else '''');
              logoutUrl =
                or_else (logoutUrl oauth_object)
                  (if truthy serverUrl
                   then interpolate serverUrl @ ''/realms/'' @ realm @
                        ''/protocol/openid-connect/logout''
                   else '''');
              redirectUri =
                or_else (oauth_settings.redirectUri oauth_object) (frontendUrl @ ''/#/callback'');
              scope = or_else (oauth_settings.scope oauth_object) ''openid profile email''
          in Inr (AuthConfig_empty
               \<lparr>issuer := Some (interpolate serverUrl @ ''/realms/'' @ realm),
                loginUrl := Some authorizeUrl,
                tokenEndpoint := Some tokenUrl,
                redirectUri := Some redirectUri,
                postLogoutRedirectUri := Some (frontendUrl @ ''/#/login''),
                clientId := appId oauth_object,
                responseType := Some ''code'',
                scope := Some scope,
                useSilentRefresh := Some False,
                oidc := Some False,
                skipIssuerCheck := Some True,
                strictDiscoveryDocumentValidation := Some False,
                requireHttps := Some (production_property environment),
                showDebugInformation := Some (\<not> production_property environment),
                sessionChecksEnabled := Some False,
                clearHashAfterLogin := Some False\<rparr>)))"

definition getOAuthConfig_js :: "environment_object \<Rightarrow> 'w window_scheme \<Rightarrow> error + AuthConfig" where
  "getOAuthConfig_js environment window =
    (case getActiveAuthMode_js environment of
       Inl e \<Rightarrow> Inl e
     | Inr authMode \<Rightarrow>
         (case authMode of
            AuthMode_OIDC \<Rightarrow> getOIDCConfig_js environment window
          | AuthMode_OAuth2 \<Rightarrow> getOAuth2Config_js environment window
          | _ \<Rightarrow> Inr (AuthConfig_empty\<lparr>clientId := Some ''''\<rparr>)))"

text \<open>An environment with both objects present, as the imported object.\<close>

definition as_object :: "'e environment_scheme \<Rightarrow> environment_object" where
  "as_object environment =
    \<lparr>production_property = production environment,
     OIDC_property = Some (OIDC environment),
     oauth_property = Some (oauth environment)\<rparr>"

text \<open>
  The objects that the resolver reads through are present: \<open>OIDC\<close>, and \<open>oauth\<close> unless
  \<open>oidcServerEnabled\<close> is true.
\<close>

definition objects_read_present :: "environment_object \<Rightarrow> bool" where
  "objects_read_present environment =
    (case OIDC_property environment of
       None \<Rightarrow> False
     | Some OIDC_object \<Rightarrow>
         if oidcServerEnabled OIDC_object then True
         else (case oauth_property environment of None \<Rightarrow> False | Some oauth_object \<Rightarrow> True))"

section \<open>The specification's wording\<close>

text \<open>
  The specification speaks of a setting that is provided: one that is set and is not
  the empty string. A setting that is not provided is missing (\<open>None\<close>) or empty
  (\<open>Some []\<close>).
\<close>

definition provided :: "string option \<Rightarrow> bool" where
  "provided v = (v \<noteq> None \<and> v \<noteq> Some [])"

text \<open>``The explicit value if provided, else the default.''\<close>

fun spec_value_or_default :: "string option \<Rightarrow> string \<Rightarrow> string" where
  "spec_value_or_default (Some (c # cs)) dflt = c # cs"
| "spec_value_or_default v dflt = dflt"

text \<open>``Realm defaults to \<open>fineract\<close> if unset.''\<close>

definition spec_realm :: "string option \<Rightarrow> string" where
  "spec_realm v = spec_value_or_default v ''fineract''"

text \<open>
  The three-step fallback of an endpoint URL: the explicit override if provided; else,
  if \<open>serverUrl\<close> is not empty, the Keycloak convention
  \<open>{serverUrl}/realms/{realm}/protocol/openid-connect/{endpoint}\<close>; else the empty
  string.
\<close>

fun spec_endpoint_url :: "string option \<Rightarrow> string option \<Rightarrow> string option \<Rightarrow> string \<Rightarrow> string" where
  "spec_endpoint_url (Some (c # cs)) server rlm endpoint = c # cs"
| "spec_endpoint_url override (Some (c # cs)) rlm endpoint =
     (c # cs) @ ''/realms/'' @ spec_realm rlm @ ''/protocol/openid-connect/'' @ endpoint"
| "spec_endpoint_url override server rlm endpoint = []"

section \<open>Concrete configurations\<close>

text \<open>Every string setting empty, both flags false.\<close>

definition oidc_unset :: OIDC_settings where
  "oidc_unset =
    \<lparr>oidcServerEnabled = False, oidcBaseUrl = Some '''', oidcClientId = Some '''',
     oidcFrontUrl = Some ''''\<rparr>"

definition oauth_unset :: oauth_settings where
  "oauth_unset =
    \<lparr>enabled = False, serverUrl = Some '''', realm = Some '''', authorizeUrl = Some '''',
     tokenUrl = Some '''', logoutUrl = Some '''', oauth_settings.redirectUri = Some '''',
     oauth_settings.scope = Some '''', appId = Some ''''\<rparr>"

definition env_basic :: environment where
  "env_basic = \<lparr>production = False, OIDC = oidc_unset, oauth = oauth_unset\<rparr>"

text \<open>Both flags true, \<open>oidcFrontUrl\<close> empty.\<close>

definition env_oidc :: environment where
  "env_oidc =
    \<lparr>production = True,
     OIDC = \<lparr>oidcServerEnabled = True, oidcBaseUrl = Some ''https://idp.example.com'',
             oidcClientId = Some ''web-app'', oidcFrontUrl = Some ''''\<rparr>,
     oauth = oauth_unset\<lparr>enabled := True\<rparr>\<rparr>"

text \<open>OAuth2 with a server URL, the realm missing and no override.\<close>

definition env_keycloak :: environment where
  "env_keycloak =
    \<lparr>production = False, OIDC = oidc_unset,
     oauth = oauth_unset\<lparr>enabled := True, serverUrl := Some ''https://auth.example.com'',
                         realm := None, appId := Some ''community-app''\<rparr>\<rparr>"

text \<open>The same with every override given.\<close>

definition env_override :: environment where
  "env_override =
    \<lparr>production = False, OIDC = oidc_unset,
     oauth = \<lparr>enabled = True, serverUrl = Some ''https://auth.example.com'',
              realm = Some ''mifos'', authorizeUrl = Some ''https://sso.example.com/authorize'',
              tokenUrl = Some ''https://sso.example.com/token'',
              logoutUrl = Some ''https://sso.example.com/logout'',
              oauth_settings.redirectUri = Some ''https://app.example.com/cb'',
              oauth_settings.scope = Some ''openid'', appId = Some ''community-app''\<rparr>\<rparr>"

text \<open>OAuth2 enabled and every string setting empty.\<close>

definition env_oauth_empty :: environment where
  "env_oauth_empty =
    \<lparr>production = False, OIDC = oidc_unset, oauth = oauth_unset\<lparr>enabled := True\<rparr>\<rparr>"

text \<open>OAuth2 enabled and every string setting missing.\<close>

definition env_oauth_missing :: environment where
  "env_oauth_missing =
    \<lparr>production = False,
     OIDC = \<lparr>oidcServerEnabled = False, oidcBaseUrl = None, oidcClientId = None,
             oidcFrontUrl = None\<rparr>,
     oauth = \<lparr>enabled = True, serverUrl = None, realm = None, authorizeUrl = None,
              tokenUrl = None, logoutUrl = None, oauth_settings.redirectUri = None,
              oauth_settings.scope = None, appId = None\<rparr>\<rparr>"

text \<open>OIDC enabled and every string setting empty.\<close>

definition env_oidc_empty :: environment where
  "env_oidc_empty =
    \<lparr>production = False, OIDC = oidc_unset\<lparr>oidcServerEnabled := True\<rparr>, oauth = oauth_unset\<rparr>"

text \<open>The imported object with \<open>OIDC\<close> missing.\<close>

definition object_OIDC_missing :: environment_object where
  "object_OIDC_missing =
    \<lparr>production_property = False, OIDC_property = None,
     oauth_property = Some (oauth_unset\<lparr>enabled := True\<rparr>)\<rparr>"

text \<open>OIDC enabled and \<open>oauth\<close> missing.\<close>

definition object_oauth_missing :: environment_object where
  "object_oauth_missing =
    \<lparr>production_property = True,
     OIDC_property = Some \<lparr>oidcServerEnabled = True,
                          oidcBaseUrl = Some ''https://idp.example.com'',
                          oidcClientId = Some ''web-app'', oidcFrontUrl = Some ''''\<rparr>,
     oauth_property = None\<rparr>"

definition win_host :: window where
  "win_host = \<lparr>location = \<lparr>origin = ''https://host''\<rparr>\<rparr>"

section \<open>Auxiliary facts\<close>

lemma truthy_provided: "truthy v = provided v"
  by (cases v) (simp_all add: truthy_def provided_def)

lemma spec_value_or_default_or_else: "spec_value_or_default v d = or_else v d"
  by (cases "(v, d)" rule: spec_value_or_default.cases) (simp_all add: or_else_def)

lemma getOAuth2Config_realm_spec:
  "getOAuth2Config_realm environment = spec_realm (realm (oauth environment))"
  by (simp add: getOAuth2Config_realm_def spec_realm_def spec_value_or_default_or_else)

lemma spec_endpoint_url_or_else:
  "spec_endpoint_url override server rlm endpoint =
     or_else override
       (if truthy server
        then interpolate server @ ''/realms/'' @ spec_realm rlm @ ''/protocol/openid-connect/'' @ endpoint
        else [])"
  by (cases "(override, server, rlm, endpoint)" rule: spec_endpoint_url.cases)
     (simp_all add: or_else_def truthy_def interpolate_def)

lemma getOAuth2Config_authorizeUrl_spec:
  "getOAuth2Config_authorizeUrl environment =
     spec_endpoint_url (authorizeUrl (oauth environment)) (serverUrl (oauth environment))
       (realm (oauth environment)) ''auth''"
  by (simp add: getOAuth2Config_authorizeUrl_def spec_endpoint_url_or_else
      getOAuth2Config_realm_spec)

lemma getOAuth2Config_tokenUrl_spec:
  "getOAuth2Config_tokenUrl environment =
     spec_endpoint_url (tokenUrl (oauth environment)) (serverUrl (oauth environment))
       (realm (oauth environment)) ''token''"
  by (simp add: getOAuth2Config_tokenUrl_def spec_endpoint_url_or_else
      getOAuth2Config_realm_spec)

lemma getOAuth2Config_logoutUrl_spec:
  "getOAuth2Config_logoutUrl environment =
     spec_endpoint_url (logoutUrl (oauth environment)) (serverUrl (oauth environment))
       (realm (oauth environment)) ''logout''"
  by (simp add: getOAuth2Config_logoutUrl_def spec_endpoint_url_or_else
      getOAuth2Config_realm_spec)

lemma getOAuthConfig_OAuth2:
  "getActiveAuthMode environment = AuthMode_OAuth2 \<Longrightarrow>
   getOAuthConfig environment window = getOAuth2Config environment window"
  by (simp add: getOAuthConfig_def)

lemma getOAuthConfig_OIDC:
  "getActiveAuthMode environment = AuthMode_OIDC \<Longrightarrow>
   getOAuthConfig environment window = getOIDCConfig environment window"
  by (simp add: getOAuthConfig_def)

lemma getOAuthConfig_Basic:
  "getActiveAuthMode environment = AuthMode_Basic \<Longrightarrow>
   getOAuthConfig environment window = AuthConfig_empty\<lparr>clientId := Some ''''\<rparr>"
  by (simp add: getOAuthConfig_def)

lemmas env_defs =
  env_basic_def env_oidc_def env_keycloak_def env_override_def env_oauth_empty_def
  env_oauth_missing_def env_oidc_empty_def object_OIDC_missing_def
  object_oauth_missing_def oidc_unset_def oauth_unset_def win_host_def

section \<open>Mode resolution\<close>



section \<open>Basic mode\<close>

text \<open>
  C2. With \<open>oidcServerEnabled\<close> and \<open>oauth.enabled\<close> both false, \<open>getOAuthConfig\<close>
  returns the object \<open>{clientId: ''}\<close>: \<open>clientId\<close> is the empty string and no other
  property is set.
\<close>

theorem getOAuthConfig_basic_sentinel:
  "\<not> oidcServerEnabled (OIDC environment) \<Longrightarrow> \<not> enabled (oauth environment) \<Longrightarrow>
   getOAuthConfig environment window =
     \<lparr>issuer = None, loginUrl = None, tokenEndpoint = None, redirectUri = None,
      postLogoutRedirectUri = None, clientId = Some '''', responseType = None, scope = None,
      useSilentRefresh = None, oidc = None, skipIssuerCheck = None,
      strictDiscoveryDocumentValidation = None, requireHttps = None,
      showDebugInformation = None, sessionChecksEnabled = None,
      clearHashAfterLogin = None\<rparr>"
  by (simp add: getOAuthConfig_def getActiveAuthMode_def AuthConfig_empty_def)

theorem getOAuthConfig_basic_sentinel_witness:
  "\<not> oidcServerEnabled (OIDC env_basic) \<and> \<not> enabled (oauth env_basic) \<and>
   clientId (getOAuthConfig env_basic win_host) = Some '''' \<and>
   issuer (getOAuthConfig env_basic win_host) = None \<and>
   oidc (getOAuthConfig env_basic win_host) = None"
proof -
  have a: "\<not> oidcServerEnabled (OIDC env_basic)"
    by (simp add: env_defs)
  have b: "\<not> enabled (oauth env_basic)"
    by (simp add: env_defs)
  show ?thesis
    using a b getOAuthConfig_basic_sentinel [OF a b, of win_host] by simp
qed

section \<open>OAuth2 mode\<close>

text \<open>
  C3. In OAuth2 mode the issuer of the returned configuration is the string
  \<open>${serverUrl}/realms/${realm}\<close>, the realm being \<open>fineract\<close> unless one is
  provided. It is built also when \<open>serverUrl\<close> is the empty string: the issuer is then
  \<open>/realms/\<close> followed by the realm, which is \<open>/realms/fineract\<close> with the default
  realm; it is never the empty string and never unset.
\<close>

theorem getOAuth2Config_issuer:
  assumes "getActiveAuthMode environment = AuthMode_OAuth2"
  shows "issuer (getOAuthConfig environment window) =
           Some (interpolate (serverUrl (oauth environment)) @ ''/realms/'' @
                 spec_realm (realm (oauth environment))) \<and>
         (serverUrl (oauth environment) = Some [] \<longrightarrow>
            issuer (getOAuthConfig environment window) =
              Some (''/realms/'' @ spec_realm (realm (oauth environment)))) \<and>
         (serverUrl (oauth environment) = Some [] \<and> \<not> provided (realm (oauth environment)) \<longrightarrow>
            issuer (getOAuthConfig environment window) = Some ''/realms/fineract'') \<and>
         issuer (getOAuthConfig environment window) \<noteq> Some [] \<and>
         issuer (getOAuthConfig environment window) \<noteq> None"
proof -
  have iss: "issuer (getOAuthConfig environment window) =
           Some (interpolate (serverUrl (oauth environment)) @ ''/realms/'' @
                 spec_realm (realm (oauth environment)))"
    by (simp add: getOAuthConfig_OAuth2 [OF assms] getOAuth2Config_def Let_def
        getOAuth2Config_realm_spec)
  have dflt: "\<not> provided (realm (oauth environment)) \<Longrightarrow>
      spec_realm (realm (oauth environment)) = ''fineract''"
    by (cases "realm (oauth environment)") (simp_all add: provided_def spec_realm_def)
  show ?thesis
    using dflt by (simp add: iss interpolate_def)
qed

theorem getOAuth2Config_issuer_witness:
  "getActiveAuthMode env_oauth_empty = AuthMode_OAuth2 \<and>
   serverUrl (oauth env_oauth_empty) = Some [] \<and>
   \<not> provided (realm (oauth env_oauth_empty)) \<and>
   issuer (getOAuthConfig env_oauth_empty win_host) = Some ''/realms/fineract'' \<and>
   getActiveAuthMode env_override = AuthMode_OAuth2 \<and>
   issuer (getOAuthConfig env_override win_host) = Some ''https://auth.example.com/realms/mifos''"
proof -
  have a: "getActiveAuthMode env_oauth_empty = AuthMode_OAuth2"
    by (simp add: getActiveAuthMode_def env_defs)
  have b: "getActiveAuthMode env_override = AuthMode_OAuth2"
    by (simp add: getActiveAuthMode_def env_defs)
  show ?thesis
    using a b getOAuth2Config_issuer [OF a, of win_host] getOAuth2Config_issuer [OF b, of win_host]
    by (simp add: env_defs provided_def interpolate_def spec_realm_def)
qed

text \<open>
  C4. In OAuth2 mode the authorize, token and logout URLs are each resolved by the
  three-step fallback: the explicit override if provided; else, if \<open>serverUrl\<close> is not
  empty, \<open>${serverUrl}/realms/${realm}/protocol/openid-connect/\<close> followed by \<open>auth\<close>,
  \<open>token\<close> or \<open>logout\<close>, with the realm \<open>fineract\<close> unless one is provided; else the
  empty string. The authorize URL is the \<open>loginUrl\<close> and the token URL the
  \<open>tokenEndpoint\<close> of the returned configuration; the logout URL is the local constant
  \<open>logoutUrl\<close>.
\<close>

theorem getOAuth2Config_endpoint_fallback:
  assumes "getActiveAuthMode environment = AuthMode_OAuth2"
  shows "loginUrl (getOAuthConfig environment window) =
           Some (spec_endpoint_url (authorizeUrl (oauth environment))
                   (serverUrl (oauth environment)) (realm (oauth environment)) ''auth'') \<and>
         tokenEndpoint (getOAuthConfig environment window) =
           Some (spec_endpoint_url (tokenUrl (oauth environment))
                   (serverUrl (oauth environment)) (realm (oauth environment)) ''token'') \<and>
         getOAuth2Config_logoutUrl environment =
           spec_endpoint_url (logoutUrl (oauth environment))
             (serverUrl (oauth environment)) (realm (oauth environment)) ''logout''"
  by (simp add: getOAuthConfig_OAuth2 [OF assms] getOAuth2Config_def Let_def
      getOAuth2Config_authorizeUrl_spec getOAuth2Config_tokenUrl_spec
      getOAuth2Config_logoutUrl_spec)

theorem getOAuth2Config_endpoint_fallback_witness:
  "getActiveAuthMode env_keycloak = AuthMode_OAuth2 \<and>
   loginUrl (getOAuthConfig env_keycloak win_host) =
     Some ''https://auth.example.com/realms/fineract/protocol/openid-connect/auth'' \<and>
   tokenEndpoint (getOAuthConfig env_keycloak win_host) =
     Some ''https://auth.example.com/realms/fineract/protocol/openid-connect/token'' \<and>
   getOAuth2Config_logoutUrl env_keycloak =
     ''https://auth.example.com/realms/fineract/protocol/openid-connect/logout'' \<and>
   getActiveAuthMode env_override = AuthMode_OAuth2 \<and>
   loginUrl (getOAuthConfig env_override win_host) = Some ''https://sso.example.com/authorize'' \<and>
   getActiveAuthMode env_oauth_missing = AuthMode_OAuth2 \<and>
   loginUrl (getOAuthConfig env_oauth_missing win_host) = Some []"
proof -
  have a: "getActiveAuthMode env_keycloak = AuthMode_OAuth2"
    by (simp add: getActiveAuthMode_def env_defs)
  have b: "getActiveAuthMode env_override = AuthMode_OAuth2"
    by (simp add: getActiveAuthMode_def env_defs)
  have c: "getActiveAuthMode env_oauth_missing = AuthMode_OAuth2"
    by (simp add: getActiveAuthMode_def env_defs)
  show ?thesis
    using a b c getOAuth2Config_endpoint_fallback [OF a, of win_host]
      getOAuth2Config_endpoint_fallback [OF b, of win_host]
      getOAuth2Config_endpoint_fallback [OF c, of win_host]
    by (simp add: env_defs spec_realm_def)
qed

text \<open>
  C7. In OAuth2 mode the \<open>redirectUri\<close> of the returned configuration is the explicit
  \<open>oauth.redirectUri\<close> if provided, else \<open>${origin}/#/callback\<close>; its \<open>scope\<close> is the
  explicit \<open>oauth.scope\<close> if provided, else \<open>openid profile email\<close>; \<open>oidc\<close> is false,
  \<open>responseType\<close> is \<open>code\<close>, \<open>skipIssuerCheck\<close> is true and
  \<open>strictDiscoveryDocumentValidation\<close> is false.
\<close>

theorem getOAuth2Config_redirect_scope_flags:
  assumes "getActiveAuthMode environment = AuthMode_OAuth2"
  shows "redirectUri (getOAuthConfig environment window) =
           Some (spec_value_or_default (oauth_settings.redirectUri (oauth environment))
                   (origin (location window) @ ''/#/callback'')) \<and>
         scope (getOAuthConfig environment window) =
           Some (spec_value_or_default (oauth_settings.scope (oauth environment))
                   ''openid profile email'') \<and>
         oidc (getOAuthConfig environment window) = Some False \<and>
         responseType (getOAuthConfig environment window) = Some ''code'' \<and>
         skipIssuerCheck (getOAuthConfig environment window) = Some True \<and>
         strictDiscoveryDocumentValidation (getOAuthConfig environment window) = Some False"
  by (simp add: getOAuthConfig_OAuth2 [OF assms] getOAuth2Config_def Let_def
      spec_value_or_default_or_else AuthConfig_empty_def)

theorem getOAuth2Config_redirect_scope_flags_witness:
  "getActiveAuthMode env_keycloak = AuthMode_OAuth2 \<and>
   redirectUri (getOAuthConfig env_keycloak win_host) = Some ''https://host/#/callback'' \<and>
   scope (getOAuthConfig env_keycloak win_host) = Some ''openid profile email'' \<and>
   getActiveAuthMode env_override = AuthMode_OAuth2 \<and>
   redirectUri (getOAuthConfig env_override win_host) = Some ''https://app.example.com/cb'' \<and>
   scope (getOAuthConfig env_override win_host) = Some ''openid'' \<and>
   skipIssuerCheck (getOAuthConfig env_override win_host) = Some True"
proof -
  have a: "getActiveAuthMode env_keycloak = AuthMode_OAuth2"
    by (simp add: getActiveAuthMode_def env_defs)
  have b: "getActiveAuthMode env_override = AuthMode_OAuth2"
    by (simp add: getActiveAuthMode_def env_defs)
  show ?thesis
    using a b getOAuth2Config_redirect_scope_flags [OF a, of win_host]
      getOAuth2Config_redirect_scope_flags [OF b, of win_host]
    by (simp add: env_defs)
qed


text \<open>
  C9. The \<open>clientId\<close> of the OAuth2 configuration is \<open>oauth.appId\<close> as it is, with
  no default, and in OAuth2 mode this is the \<open>clientId\<close> that \<open>getOAuthConfig\<close>
  returns. So when \<open>oauth.enabled\<close> is true and \<open>oauth.appId\<close> is the empty string,
  the OAuth2 configuration has \<open>clientId = ''\<close>, the \<open>clientId\<close> of the object
  returned in Basic mode.
\<close>

theorem getOAuth2Config_clientId_verbatim:
  "clientId (getOAuth2Config environment window) = appId (oauth environment) \<and>
   (getActiveAuthMode environment = AuthMode_OAuth2 \<longrightarrow>
      clientId (getOAuthConfig environment window) = appId (oauth environment)) \<and>
   (enabled (oauth environment) \<and> appId (oauth environment) = Some [] \<and>
    getActiveAuthMode environment' = AuthMode_Basic \<longrightarrow>
      clientId (getOAuth2Config environment window) = Some [] \<and>
      clientId (getOAuth2Config environment window) =
        clientId (getOAuthConfig environment' window'))"
proof -
  have c: "clientId (getOAuth2Config environment window) = appId (oauth environment)"
    by (simp add: getOAuth2Config_def Let_def)
  have b: "getActiveAuthMode environment' = AuthMode_Basic \<Longrightarrow>
      clientId (getOAuthConfig environment' window') = Some []"
    by (simp add: getOAuthConfig_Basic)
  show ?thesis
    using b by (simp add: c getOAuthConfig_OAuth2)
qed

theorem getOAuth2Config_clientId_verbatim_witness:
  "getActiveAuthMode env_oauth_empty = AuthMode_OAuth2 \<and>
   enabled (oauth env_oauth_empty) \<and>
   appId (oauth env_oauth_empty) = Some [] \<and>
   getActiveAuthMode env_basic = AuthMode_Basic \<and>
   clientId (getOAuthConfig env_oauth_empty win_host) = Some [] \<and>
   clientId (getOAuth2Config env_oauth_empty win_host) =
     clientId (getOAuthConfig env_basic win_host) \<and>
   getActiveAuthMode env_keycloak = AuthMode_OAuth2 \<and>
   clientId (getOAuthConfig env_keycloak win_host) = Some ''community-app''"
proof -
  have a: "getActiveAuthMode env_oauth_empty = AuthMode_OAuth2"
    by (simp add: getActiveAuthMode_def env_defs)
  have b: "getActiveAuthMode env_keycloak = AuthMode_OAuth2"
    by (simp add: getActiveAuthMode_def env_defs)
  have c: "getActiveAuthMode env_basic = AuthMode_Basic"
    by (simp add: getActiveAuthMode_def env_defs)
  have d: "appId (oauth env_oauth_empty) = Some []" "enabled (oauth env_oauth_empty)"
    by (simp_all add: env_defs)
  have e: "appId (oauth env_keycloak) = Some ''community-app''"
    by (simp add: env_defs)
  show ?thesis
    using getOAuth2Config_clientId_verbatim [of env_oauth_empty win_host env_basic win_host]
      getOAuth2Config_clientId_verbatim [of env_keycloak win_host env_basic win_host]
    by (auto simp add: a b c d e)
qed

text \<open>
  C10. In OAuth2 mode the \<open>postLogoutRedirectUri\<close> of the returned configuration is
  \<open>${origin}/#/login\<close>, built from the browser origin. No setting of the environment
  overrides it: two configurations in OAuth2 mode give the same value at the same origin.
\<close>

theorem getOAuth2Config_postLogoutRedirectUri_fixed:
  assumes "getActiveAuthMode environment = AuthMode_OAuth2"
  shows "postLogoutRedirectUri (getOAuthConfig environment window) =
           Some (origin (location window) @ ''/#/login'') \<and>
         (getActiveAuthMode environment' = AuthMode_OAuth2 \<and>
          origin (location window') = origin (location window) \<longrightarrow>
            postLogoutRedirectUri (getOAuthConfig environment' window') =
              postLogoutRedirectUri (getOAuthConfig environment window))"
  by (simp add: getOAuthConfig_OAuth2 [OF assms] getOAuthConfig_OAuth2 getOAuth2Config_def
      Let_def)

theorem getOAuth2Config_postLogoutRedirectUri_fixed_witness:
  "getActiveAuthMode env_keycloak = AuthMode_OAuth2 \<and>
   getActiveAuthMode env_override = AuthMode_OAuth2 \<and>
   postLogoutRedirectUri (getOAuthConfig env_keycloak win_host) = Some ''https://host/#/login'' \<and>
   postLogoutRedirectUri (getOAuthConfig env_override win_host) =
     postLogoutRedirectUri (getOAuthConfig env_keycloak win_host) \<and>
   redirectUri (getOAuthConfig env_override win_host) \<noteq>
     redirectUri (getOAuthConfig env_keycloak win_host)"
proof -
  have a: "getActiveAuthMode env_keycloak = AuthMode_OAuth2"
    by (simp add: getActiveAuthMode_def env_defs)
  have b: "getActiveAuthMode env_override = AuthMode_OAuth2"
    by (simp add: getActiveAuthMode_def env_defs)
  have r: "redirectUri (getOAuthConfig env_override win_host) \<noteq>
     redirectUri (getOAuthConfig env_keycloak win_host)"
    by (simp add: getOAuthConfig_def getActiveAuthMode_def getOAuth2Config_def Let_def
        or_else_def env_defs)
  show ?thesis
    using a b r
      getOAuth2Config_postLogoutRedirectUri_fixed [OF a, of win_host env_override win_host]
    by (simp add: env_defs)
qed

section \<open>OIDC mode\<close>



section \<open>Missing objects, missing and empty settings\<close>

lemma getActiveAuthMode_js_as_object:
  "getActiveAuthMode_js (as_object environment) = Inr (getActiveAuthMode environment)"
  by (simp add: getActiveAuthMode_js_def as_object_def getActiveAuthMode_def)

lemma getOIDCConfig_js_as_object:
  "getOIDCConfig_js (as_object environment) window = Inr (getOIDCConfig environment window)"
  by (simp add: getOIDCConfig_js_def as_object_def getOIDCConfig_def Let_def)

lemma getOAuth2Config_js_as_object:
  "getOAuth2Config_js (as_object environment) window = Inr (getOAuth2Config environment window)"
  by (simp add: getOAuth2Config_js_def as_object_def getOAuth2Config_def
      getOAuth2Config_realm_def getOAuth2Config_authorizeUrl_def getOAuth2Config_tokenUrl_def
      getOAuth2Config_logoutUrl_def Let_def)

lemma getOAuthConfig_js_as_object:
  "getOAuthConfig_js (as_object environment) window = Inr (getOAuthConfig environment window)"
  by (cases "getActiveAuthMode environment")
     (simp_all add: getOAuthConfig_js_def getActiveAuthMode_js_as_object getOAuthConfig_def
        getOIDCConfig_js_as_object getOAuth2Config_js_as_object)

lemma getActiveAuthMode_js_returns:
  "objects_read_present obj \<Longrightarrow> \<exists>authMode. getActiveAuthMode_js obj = Inr authMode"
  by (cases "OIDC_property obj"; cases "oauth_property obj")
     (simp_all add: objects_read_present_def getActiveAuthMode_js_def split: if_splits)

lemma getActiveAuthMode_js_raises:
  "\<not> objects_read_present obj \<Longrightarrow> getActiveAuthMode_js obj = Inl TypeError"
  by (cases "OIDC_property obj"; cases "oauth_property obj")
     (simp_all add: objects_read_present_def getActiveAuthMode_js_def split: if_splits)

lemma getOAuthConfig_js_returns:
  "objects_read_present obj \<Longrightarrow> \<exists>config. getOAuthConfig_js obj window = Inr config"
  by (cases "OIDC_property obj"; cases "oauth_property obj")
     (simp_all add: objects_read_present_def getOAuthConfig_js_def getActiveAuthMode_js_def
        getOIDCConfig_js_def getOAuth2Config_js_def Let_def split: if_splits)

lemma getOAuthConfig_js_raises:
  "\<not> objects_read_present obj \<Longrightarrow> getOAuthConfig_js obj window = Inl TypeError"
  by (simp add: getOAuthConfig_js_def getActiveAuthMode_js_raises)

text \<open>
  C6 as stated fails at two inputs. With the object \<open>OIDC\<close> missing the first read of
  \<open>getActiveAuthMode\<close> raises a \<open>TypeError\<close>, and \<open>getOAuthConfig\<close> with it. With
  both objects present, \<open>oauth.enabled\<close> true and \<open>oauth.appId\<close> missing, the
  \<open>clientId\<close> of the returned configuration is unset, not \<open>''\<close>: a missing setting
  is not turned into the empty string.
\<close>

theorem getOAuthConfig_missing_settings_counterexample:
  "getActiveAuthMode_js object_OIDC_missing = Inl TypeError \<and>
   getOAuthConfig_js object_OIDC_missing win_host = Inl TypeError \<and>
   getActiveAuthMode_js (as_object env_oauth_missing) = Inr AuthMode_OAuth2 \<and>
   appId (oauth env_oauth_missing) = None \<and>
   getOAuthConfig_js (as_object env_oauth_missing) win_host =
     Inr (getOAuthConfig env_oauth_missing win_host) \<and>
   clientId (getOAuthConfig env_oauth_missing win_host) = None \<and>
   clientId (getOAuthConfig env_oauth_missing win_host) \<noteq> Some []"
proof -
  have a: "getActiveAuthMode_js object_OIDC_missing = Inl TypeError"
    by (simp add: getActiveAuthMode_js_def object_OIDC_missing_def)
  have b: "getOAuthConfig_js object_OIDC_missing win_host = Inl TypeError"
    by (simp add: getOAuthConfig_js_def a)
  have c: "getActiveAuthMode env_oauth_missing = AuthMode_OAuth2"
    by (simp add: getActiveAuthMode_def env_oauth_missing_def)
  have d: "appId (oauth env_oauth_missing) = None"
    by (simp add: env_oauth_missing_def)
  have e: "clientId (getOAuthConfig env_oauth_missing win_host) = None"
    by (simp add: getOAuthConfig_OAuth2 [OF c] getOAuth2Config_def Let_def d)
  show ?thesis
    by (simp add: a b c d e getActiveAuthMode_js_as_object getOAuthConfig_js_as_object)
qed

text \<open>
  C6 (amended). For every imported environment object whose \<open>OIDC\<close> object is present,
  and whose \<open>oauth\<close> object is present unless \<open>oidcServerEnabled\<close> is true,
  \<open>getActiveAuthMode\<close> and \<open>getOAuthConfig\<close> return a value and raise nothing; when
  such an object is missing they raise a \<open>TypeError\<close>. With both objects present, and
  string settings missing or empty or not, \<open>getOAuthConfig\<close> returns the configuration
  of the resolved mode, and nothing is validated. In OAuth2 mode an authorize or token
  URL with neither an override nor a \<open>serverUrl\<close> provided is the empty string. The
  settings \<open>oauth.appId\<close>, \<open>oidcBaseUrl\<close> and \<open>oidcClientId\<close> are passed through as
  they are: an empty one gives an empty-string property and a missing one an unset
  property. An empty \<open>serverUrl\<close> gives the issuer \<open>/realms/{realm}\<close> and a missing one
  the issuer \<open>undefined/realms/{realm}\<close>.
\<close>

theorem getOAuthConfig_no_local_validation:
  "(objects_read_present obj \<longrightarrow>
      (\<exists>authMode. getActiveAuthMode_js obj = Inr authMode) \<and>
      (\<exists>config. getOAuthConfig_js obj window = Inr config)) \<and>
   (\<not> objects_read_present obj \<longrightarrow>
      getActiveAuthMode_js obj = Inl TypeError \<and>
      getOAuthConfig_js obj window = Inl TypeError) \<and>
   getActiveAuthMode_js (as_object environment) = Inr (getActiveAuthMode environment) \<and>
   getOAuthConfig_js (as_object environment) window = Inr (getOAuthConfig environment window) \<and>
   (getActiveAuthMode environment = AuthMode_Basic \<longrightarrow>
      getOAuthConfig environment window = AuthConfig_empty\<lparr>clientId := Some []\<rparr>) \<and>
   (getActiveAuthMode environment = AuthMode_OAuth2 \<longrightarrow>
      getOAuthConfig environment window = getOAuth2Config environment window \<and>
      (\<not> provided (authorizeUrl (oauth environment)) \<and>
       \<not> provided (serverUrl (oauth environment)) \<longrightarrow>
         loginUrl (getOAuthConfig environment window) = Some []) \<and>
      (\<not> provided (tokenUrl (oauth environment)) \<and>
       \<not> provided (serverUrl (oauth environment)) \<longrightarrow>
         tokenEndpoint (getOAuthConfig environment window) = Some []) \<and>
      (appId (oauth environment) = Some [] \<longrightarrow>
         clientId (getOAuthConfig environment window) = Some []) \<and>
      (appId (oauth environment) = None \<longrightarrow>
         clientId (getOAuthConfig environment window) = None) \<and>
      (serverUrl (oauth environment) = Some [] \<longrightarrow>
         issuer (getOAuthConfig environment window) =
           Some (''/realms/'' @ spec_realm (realm (oauth environment)))) \<and>
      (serverUrl (oauth environment) = None \<longrightarrow>
         issuer (getOAuthConfig environment window) =
           Some (''undefined/realms/'' @ spec_realm (realm (oauth environment))))) \<and>
   (getActiveAuthMode environment = AuthMode_OIDC \<longrightarrow>
      getOAuthConfig environment window = getOIDCConfig environment window \<and>
      (oidcBaseUrl (OIDC environment) = Some [] \<longrightarrow>
         issuer (getOAuthConfig environment window) = Some []) \<and>
      (oidcBaseUrl (OIDC environment) = None \<longrightarrow>
         issuer (getOAuthConfig environment window) = None) \<and>
      (oidcClientId (OIDC environment) = Some [] \<longrightarrow>
         clientId (getOAuthConfig environment window) = Some []) \<and>
      (oidcClientId (OIDC environment) = None \<longrightarrow>
         clientId (getOAuthConfig environment window) = None))"
proof -
  have returns: "objects_read_present obj \<longrightarrow>
      (\<exists>authMode. getActiveAuthMode_js obj = Inr authMode) \<and>
      (\<exists>config. getOAuthConfig_js obj window = Inr config)"
    using getActiveAuthMode_js_returns getOAuthConfig_js_returns by blast
  have raises: "\<not> objects_read_present obj \<longrightarrow>
      getActiveAuthMode_js obj = Inl TypeError \<and>
      getOAuthConfig_js obj window = Inl TypeError"
    by (simp add: getActiveAuthMode_js_raises getOAuthConfig_js_raises)
  have empty_url: "\<not> provided override \<Longrightarrow> \<not> provided server \<Longrightarrow>
      spec_endpoint_url override server rlm endpoint = []"
    for override server rlm endpoint
    by (auto simp add: spec_endpoint_url_or_else truthy_provided or_else_def provided_def
        split: option.splits)
  have oauth2: "loginUrl (getOAuth2Config environment window) =
        Some (spec_endpoint_url (authorizeUrl (oauth environment))
                (serverUrl (oauth environment)) (realm (oauth environment)) ''auth'')"
      "tokenEndpoint (getOAuth2Config environment window) =
        Some (spec_endpoint_url (tokenUrl (oauth environment))
                (serverUrl (oauth environment)) (realm (oauth environment)) ''token'')"
      "clientId (getOAuth2Config environment window) = appId (oauth environment)"
      "issuer (getOAuth2Config environment window) =
        Some (interpolate (serverUrl (oauth environment)) @ ''/realms/'' @
              spec_realm (realm (oauth environment)))"
    by (simp_all add: getOAuth2Config_def Let_def getOAuth2Config_authorizeUrl_spec
        getOAuth2Config_tokenUrl_spec getOAuth2Config_realm_spec)
  have oidc: "issuer (getOIDCConfig environment window) = oidcBaseUrl (OIDC environment)"
      "clientId (getOIDCConfig environment window) = oidcClientId (OIDC environment)"
    by (simp_all add: getOIDCConfig_def Let_def)
  have basic: "getActiveAuthMode environment = AuthMode_Basic \<longrightarrow>
      getOAuthConfig environment window = AuthConfig_empty\<lparr>clientId := Some []\<rparr>"
    by (simp add: getOAuthConfig_Basic)
  have c: "getActiveAuthMode environment = AuthMode_OAuth2 \<longrightarrow>
      getOAuthConfig environment window = getOAuth2Config environment window \<and>
      (\<not> provided (authorizeUrl (oauth environment)) \<and>
       \<not> provided (serverUrl (oauth environment)) \<longrightarrow>
         loginUrl (getOAuthConfig environment window) = Some []) \<and>
      (\<not> provided (tokenUrl (oauth environment)) \<and>
       \<not> provided (serverUrl (oauth environment)) \<longrightarrow>
         tokenEndpoint (getOAuthConfig environment window) = Some []) \<and>
      (appId (oauth environment) = Some [] \<longrightarrow>
         clientId (getOAuthConfig environment window) = Some []) \<and>
      (appId (oauth environment) = None \<longrightarrow>
         clientId (getOAuthConfig environment window) = None) \<and>
      (serverUrl (oauth environment) = Some [] \<longrightarrow>
         issuer (getOAuthConfig environment window) =
           Some (''/realms/'' @ spec_realm (realm (oauth environment)))) \<and>
      (serverUrl (oauth environment) = None \<longrightarrow>
         issuer (getOAuthConfig environment window) =
           Some (''undefined/realms/'' @ spec_realm (realm (oauth environment))))"
    by (simp add: getOAuthConfig_OAuth2 oauth2 empty_url interpolate_def)
  have d: "getActiveAuthMode environment = AuthMode_OIDC \<longrightarrow>
      getOAuthConfig environment window = getOIDCConfig environment window \<and>
      (oidcBaseUrl (OIDC environment) = Some [] \<longrightarrow>
         issuer (getOAuthConfig environment window) = Some []) \<and>
      (oidcBaseUrl (OIDC environment) = None \<longrightarrow>
         issuer (getOAuthConfig environment window) = None) \<and>
      (oidcClientId (OIDC environment) = Some [] \<longrightarrow>
         clientId (getOAuthConfig environment window) = Some []) \<and>
      (oidcClientId (OIDC environment) = None \<longrightarrow>
         clientId (getOAuthConfig environment window) = None)"
    by (simp add: getOAuthConfig_OIDC oidc)
  from returns raises getActiveAuthMode_js_as_object [of environment]
    getOAuthConfig_js_as_object [of environment window] basic c d
  show ?thesis by (intro conjI)
qed

theorem getOAuthConfig_no_local_validation_witness:
  "\<not> objects_read_present object_OIDC_missing \<and>
   getOAuthConfig_js object_OIDC_missing win_host = Inl TypeError \<and>
   objects_read_present object_oauth_missing \<and>
   getActiveAuthMode_js object_oauth_missing = Inr AuthMode_OIDC \<and>
   (\<exists>config. getOAuthConfig_js object_oauth_missing win_host = Inr config) \<and>
   getActiveAuthMode env_oauth_missing = AuthMode_OAuth2 \<and>
   \<not> provided (authorizeUrl (oauth env_oauth_missing)) \<and>
   \<not> provided (tokenUrl (oauth env_oauth_missing)) \<and>
   \<not> provided (serverUrl (oauth env_oauth_missing)) \<and>
   getOAuthConfig_js (as_object env_oauth_missing) win_host =
     Inr (getOAuth2Config env_oauth_missing win_host) \<and>
   loginUrl (getOAuthConfig env_oauth_missing win_host) = Some [] \<and>
   tokenEndpoint (getOAuthConfig env_oauth_missing win_host) = Some [] \<and>
   clientId (getOAuthConfig env_oauth_missing win_host) = None \<and>
   issuer (getOAuthConfig env_oauth_missing win_host) = Some ''undefined/realms/fineract'' \<and>
   getActiveAuthMode env_oauth_empty = AuthMode_OAuth2 \<and>
   loginUrl (getOAuthConfig env_oauth_empty win_host) = Some [] \<and>
   clientId (getOAuthConfig env_oauth_empty win_host) = Some [] \<and>
   issuer (getOAuthConfig env_oauth_empty win_host) = Some ''/realms/fineract'' \<and>
   getActiveAuthMode env_oidc_empty = AuthMode_OIDC \<and>
   oidcBaseUrl (OIDC env_oidc_empty) = Some [] \<and>
   issuer (getOAuthConfig env_oidc_empty win_host) = Some [] \<and>
   clientId (getOAuthConfig env_oidc_empty win_host) = Some [] \<and>
   getActiveAuthMode env_basic = AuthMode_Basic \<and>
   getOAuthConfig_js (as_object env_basic) win_host =
     Inr (AuthConfig_empty\<lparr>clientId := Some []\<rparr>)"
proof -
  have a: "getActiveAuthMode env_oauth_missing = AuthMode_OAuth2"
    "getActiveAuthMode env_oauth_empty = AuthMode_OAuth2"
    "getActiveAuthMode env_oidc_empty = AuthMode_OIDC"
    "getActiveAuthMode env_basic = AuthMode_Basic"
    by (simp_all add: getActiveAuthMode_def env_defs)
  have b: "oauth env_oauth_missing =
      \<lparr>enabled = True, serverUrl = None, realm = None, authorizeUrl = None,
       tokenUrl = None, logoutUrl = None, oauth_settings.redirectUri = None,
       oauth_settings.scope = None, appId = None\<rparr>"
    "oauth env_oauth_empty = oauth_unset\<lparr>enabled := True\<rparr>"
    by (simp_all add: env_defs)
  have e: "OIDC env_oidc_empty = oidc_unset\<lparr>oidcServerEnabled := True\<rparr>"
    by (simp add: env_defs)
  have p: "\<not> objects_read_present object_OIDC_missing"
    "objects_read_present object_oauth_missing"
    by (simp_all add: objects_read_present_def env_defs)
  have m: "getActiveAuthMode_js object_oauth_missing = Inr AuthMode_OIDC"
    by (simp add: getActiveAuthMode_js_def env_defs)
  show ?thesis
    using getOAuthConfig_no_local_validation [of object_OIDC_missing win_host env_oauth_missing]
      getOAuthConfig_no_local_validation [of object_oauth_missing win_host env_oauth_empty]
      getOAuthConfig_no_local_validation [of object_oauth_missing win_host env_oidc_empty]
      getOAuthConfig_no_local_validation [of object_oauth_missing win_host env_basic]
    by (auto simp add: a b e p m provided_def spec_realm_def oauth_unset_def oidc_unset_def)
qed

end
